theory Spec2Isabelle
  imports Complex_Main "HOL-Library.Multiset"
begin

section \<open>Values of the program\<close>

text \<open>
  The relay of \<^verbatim>\<open>main.py\<close> moves JSON frames between a browser websocket and an
  upstream websocket and stores orders through \<^verbatim>\<open>database.py\<close>. A value produced by
  \<^verbatim>\<open>json.loads\<close> is one of the seven shapes below. A dict is an association list read
  with \<open>map_of\<close>; Python floats are kept abstract (type variable \<open>'f\<close>), since no
  property below depends on floating-point arithmetic.
\<close>

datatype 'f json =
    JNull
  | JBool bool
  | JInt int
  | JFloat 'f
  | JStr string
  | JArr "'f json list"
  | JObj "(string \<times> 'f json) list"

text \<open>Every exception below is a subclass of \<^verbatim>\<open>Exception\<close> in Python.\<close>

datatype py_exn =
    JSONDecodeError
  | KeyError string
  | TypeError
  | AttributeError
  | ValueError
  | OverflowError
  | ConnectionError string
  | DatabaseError string
  | OSError string

text \<open>
  Library functions the source calls and that are not part of the repository:
  \<^verbatim>\<open>json.loads\<close>, \<^verbatim>\<open>json.dumps(_, indent=2)\<close> and the conversions behind
  \<^verbatim>\<open>int(_)\<close> and \<^verbatim>\<open>float(_)\<close>. They are parameters of the model. A frame that is
  sent is recorded as the value handed to \<^verbatim>\<open>json.dumps\<close> or \<^verbatim>\<open>send_json\<close>, which
  serialise every value \<^verbatim>\<open>json.loads\<close> can produce.
\<close>

record 'f pylib =
  loads :: "string \<Rightarrow> py_exn + 'f json"
  dumps_indent2 :: "'f json \<Rightarrow> string"
  int_of_float :: "'f \<Rightarrow> py_exn + int"
  int_of_str :: "string \<Rightarrow> py_exn + int"
  float_of_int :: "int \<Rightarrow> py_exn + 'f"
  float_of_str :: "string \<Rightarrow> py_exn + 'f"

subsection \<open>Python operations on JSON values\<close>

text \<open>\<^verbatim>\<open>needle in hay\<close> for two strings: the substring test.\<close>

fun str_contains :: "string \<Rightarrow> string \<Rightarrow> bool" where
  "str_contains t [] = (t = [])"
| "str_contains t (c # cs) = (take (length t) (c # cs) = t \<or> str_contains t cs)"

text \<open>
  \<^verbatim>\<open>key in v\<close> with a string key: key membership for a dict, element membership for a
  list, substring test for a string, \<^verbatim>\<open>TypeError\<close> for anything else.
\<close>

fun py_in :: "string \<Rightarrow> 'f json \<Rightarrow> py_exn + bool" where
  "py_in k (JObj d) = Inr (map_of d k \<noteq> None)"
| "py_in k (JArr xs) = Inr (JStr k \<in> set xs)"
| "py_in k (JStr s) = Inr (str_contains k s)"
| "py_in k _ = Inl TypeError"

text \<open>\<^verbatim>\<open>v[key]\<close> with a string key: only a dict can be subscripted by a string.\<close>

fun py_getitem :: "'f json \<Rightarrow> string \<Rightarrow> py_exn + 'f json" where
  "py_getitem (JObj d) k = (case map_of d k of None \<Rightarrow> Inl (KeyError k) | Some v \<Rightarrow> Inr v)"
| "py_getitem _ k = Inl TypeError"

text \<open>\<^verbatim>\<open>v.get(key, default)\<close>: only a dict has the method.\<close>

fun py_get :: "'f json \<Rightarrow> string \<Rightarrow> 'f json \<Rightarrow> py_exn + 'f json" where
  "py_get (JObj d) k dflt = Inr (case map_of d k of None \<Rightarrow> dflt | Some v \<Rightarrow> v)"
| "py_get _ k dflt = Inl AttributeError"

text \<open>
  The elements a \<^verbatim>\<open>for\<close> loop visits: the elements of a list, the keys of a dict,
  the characters of a string; other values are not iterable.
\<close>

fun py_iter :: "'f json \<Rightarrow> py_exn + 'f json list" where
  "py_iter (JArr xs) = Inr xs"
| "py_iter (JObj d) = Inr (map (\<lambda>kv. JStr (fst kv)) d)"
| "py_iter (JStr s) = Inr (map (\<lambda>c. JStr [c]) s)"
| "py_iter _ = Inl TypeError"

fun py_int :: "'f pylib \<Rightarrow> 'f json \<Rightarrow> py_exn + int" where
  "py_int L (JInt n) = Inr n"
| "py_int L (JBool b) = Inr (if b then 1 else 0)"
| "py_int L (JFloat x) = int_of_float L x"
| "py_int L (JStr s) = int_of_str L s"
| "py_int L _ = Inl TypeError"

fun py_float :: "'f pylib \<Rightarrow> 'f json \<Rightarrow> py_exn + 'f" where
  "py_float L (JInt n) = float_of_int L n"
| "py_float L (JBool b) = float_of_int L (if b then 1 else 0)"
| "py_float L (JFloat x) = Inr x"
| "py_float L (JStr s) = float_of_str L s"
| "py_float L _ = Inl TypeError"

section \<open>The orders table (database.py)\<close>

text \<open>
  One row of table \<^verbatim>\<open>orders\<close>. The columns carry no constraint besides the primary
  key, and \<^verbatim>\<open>save_order\<close> hands the tool call's \<^verbatim>\<open>item\<close> over as it came.
\<close>

record 'f order =
  order_id :: nat
  item :: "'f json"
  quantity :: int
  price :: 'f
  status :: string
  created_at :: nat

section \<open>The world of one session\<close>

datatype 'f log_entry =
    LogDbSaved int "'f json" 'f
  | LogDbError py_exn
  | LogMenuMissing
  | LogMenuError py_exn
  | LogConnected
  | LogBrowserDisconnected py_exn
  | LogGeminiDisconnected py_exn
  | LogSessionEnded py_exn

datatype task = BrowserToGemini | GeminiToBrowser

text \<open>
  What the program has done so far. \<open>save_calls\<close> records the arguments of every call
  of \<^verbatim>\<open>save_order\<close>; \<open>up_sent\<close> and \<open>cl_sent\<close> are the frames handed to the upstream
  and to the client websocket, in order; \<open>up_closed\<close> and \<open>cl_closed\<close> count the closes
  of the two channels; \<open>cancelled\<close> lists the tasks \<^verbatim>\<open>task.cancel()\<close> was called on.
\<close>

record 'f state =
  orders :: "'f order list"
  save_calls :: "('f json \<times> int \<times> 'f) list"
  up_sent :: "'f json list"
  cl_sent :: "'f json list"
  log :: "'f log_entry list"
  up_closed :: nat
  cl_closed :: nat
  cancelled :: "task list"

datatype menu_file = Missing | Unreadable py_exn | Content string

text \<open>
  What arrives while the two loops run, in arrival order: a text frame from either side,
  or the end of either stream (\<open>None\<close>: the iterator is exhausted; \<open>Some e\<close>: it raises).
\<close>

datatype event =
    ClientFrame string
  | ClientEnd "py_exn option"
  | UpstreamFrame string
  | UpstreamEnd "py_exn option"

text \<open>
  What the program does not decide: the library, the menu file, whether the upstream
  connect succeeds, which sends and commits fail (\<open>up_fault n\<close> is the outcome of a
  send after \<open>n\<close> frames went upstream, \<open>cl_fault\<close> likewise for the client,
  \<open>db_fault n\<close> the outcome of the commit of save call \<open>n\<close>), the clock read by
  that commit, and the arrivals.
\<close>

record 'f env =
  lib :: "'f pylib"
  menu :: menu_file
  connect_fault :: "py_exn option"
  up_fault :: "nat \<Rightarrow> py_exn option"
  cl_fault :: "nat \<Rightarrow> py_exn option"
  db_fault :: "nat \<Rightarrow> py_exn option"
  db_now :: "nat \<Rightarrow> nat"
  schedule :: "event list"

text \<open>
  A statement's outcome: the exception it raised, if any, and the state it left. Effects
  done before a raise stay done.
\<close>

type_synonym 'f outcome = "py_exn option \<times> 'f state"

definition ws_send :: "'f env \<Rightarrow> 'f json \<Rightarrow> 'f state \<Rightarrow> 'f outcome" where
  "ws_send E frame s =
     (case up_fault E (length (up_sent s)) of
        Some e \<Rightarrow> (Some e, s)
      | None \<Rightarrow> (None, s\<lparr>up_sent := up_sent s @ [frame]\<rparr>))"

definition send_json :: "'f env \<Rightarrow> 'f json \<Rightarrow> 'f state \<Rightarrow> 'f outcome" where
  "send_json E frame s =
     (case cl_fault E (length (cl_sent s)) of
        Some e \<Rightarrow> (Some e, s)
      | None \<Rightarrow> (None, s\<lparr>cl_sent := cl_sent s @ [frame]\<rparr>))"

section \<open>save\_order and get\_orders\<close>

definition next_id :: "'f order list \<Rightarrow> nat" where
  "next_id os = Suc (fold max (map order_id os) 0)"

text \<open>
  The body of the \<^verbatim>\<open>try\<close> in \<^verbatim>\<open>save_order\<close>: build the row with status
  \<^verbatim>\<open>"pending"\<close>, add and commit it (the key and \<^verbatim>\<open>created_at\<close> are filled in by the
  insert), log. A failing commit stores nothing.
\<close>

definition save_order_try :: "'f env \<Rightarrow> nat \<Rightarrow> 'f json \<Rightarrow> int \<Rightarrow> 'f \<Rightarrow> 'f state \<Rightarrow> 'f outcome" where
  "save_order_try E n it q p s =
     (case db_fault E n of
        Some e \<Rightarrow> (Some e, s)
      | None \<Rightarrow>
          (None, s\<lparr>orders := orders s @
                      [\<lparr>order_id = next_id (orders s), item = it, quantity = q, price = p,
                        status = ''pending'', created_at = db_now E n\<rparr>],
                    log := log s @ [LogDbSaved q it p]\<rparr>))"

text \<open>\<^verbatim>\<open>save_order\<close>: the \<^verbatim>\<open>try\<close> body under \<^verbatim>\<open>except Exception\<close>, which logs.\<close>

definition save_order :: "'f env \<Rightarrow> 'f json \<Rightarrow> int \<Rightarrow> 'f \<Rightarrow> 'f state \<Rightarrow> 'f outcome" where
  "save_order E it q p s =
     (case save_order_try E (length (save_calls s)) it q p
             (s\<lparr>save_calls := save_calls s @ [(it, q, p)]\<rparr>) of
        (Some e, s') \<Rightarrow> (None, s'\<lparr>log := log s' @ [LogDbError e]\<rparr>)
      | (None, s') \<Rightarrow> (None, s'))"

text \<open>
  \<^verbatim>\<open>get_orders\<close>: \<^verbatim>\<open>query(Order).order_by(Order.created_at.desc()).all()\<close>. Rows of
  equal \<^verbatim>\<open>created_at\<close> come in an order the source does not fix; here, insertion order
  reversed.
\<close>

definition get_orders :: "'f order list \<Rightarrow> 'f order list" where
  "get_orders os = rev (sort_key created_at os)"

section \<open>The frames the relay builds\<close>

definition realtime_input :: "'f json \<Rightarrow> 'f json" where
  "realtime_input a =
     JObj [(''realtimeInput'',
            JObj [(''mediaChunks'',
                   JArr [JObj [(''mimeType'', JStr ''audio/pcm''), (''data'', a)]])])]"

definition tool_response :: "'f json \<Rightarrow> 'f json" where
  "tool_response cid =
     JObj [(''toolResponse'',
            JObj [(''functionResponses'',
                   JArr [JObj [(''name'', JStr ''place_order''),
                               (''id'', cid),
                               (''response'',
                                JObj [(''result'', JObj [(''status'', JStr ''success'')])])]])])]"

definition audio_frame :: "'f json \<Rightarrow> 'f json" where
  "audio_frame d = JObj [(''type'', JStr ''audio''), (''data'', d)]"







section \<open>The two forwarding loops\<close>

subsection \<open>browser\_to\_gemini\<close>

text \<open>
  The body of \<^verbatim>\<open>async for message in self.client_ws.iter_text()\<close>: parse the frame,
  read \<^verbatim>\<open>data.get("type")\<close>, and forward \<^verbatim>\<open>data["audio"]\<close> when the type is
  \<^verbatim>\<open>"audio"\<close>.
\<close>

definition browser_frame :: "'f env \<Rightarrow> string \<Rightarrow> 'f state \<Rightarrow> 'f outcome" where
  "browser_frame E message s =
     (case loads (lib E) message of
        Inl e \<Rightarrow> (Some e, s)
      | Inr data \<Rightarrow>
          (case py_get data ''type'' JNull of
             Inl e \<Rightarrow> (Some e, s)
           | Inr t \<Rightarrow>
               if t = JStr ''audio'' then
                 (case py_getitem data ''audio'' of
                    Inl e \<Rightarrow> (Some e, s)
                  | Inr a \<Rightarrow> ws_send E (realtime_input a) s)
               else (None, s)))"

text \<open>
  The whole loop on the frames the client delivers before its stream ends with
  \<open>ending\<close>. The \<^verbatim>\<open>except\<close> clause logs the exception and raises it again.
\<close>

fun browser_to_gemini :: "'f env \<Rightarrow> string list \<Rightarrow> py_exn option \<Rightarrow> 'f state \<Rightarrow> 'f outcome" where
  "browser_to_gemini E [] None s = (None, s)"
| "browser_to_gemini E [] (Some e) s = (Some e, s\<lparr>log := log s @ [LogBrowserDisconnected e]\<rparr>)"
| "browser_to_gemini E (m # ms) ending s =
     (case browser_frame E m s of
        (Some e, s') \<Rightarrow> (Some e, s'\<lparr>log := log s' @ [LogBrowserDisconnected e]\<rparr>)
      | (None, s') \<Rightarrow> browser_to_gemini E ms ending s')"

subsection \<open>gemini\_to\_browser\<close>

text \<open>
  The body of \<^verbatim>\<open>if fc["name"] == "place_order"\<close>: the three arguments are evaluated
  left to right, \<^verbatim>\<open>save_order\<close> is called, then the response is built (reading
  \<^verbatim>\<open>fc["id"]\<close>) and sent upstream.
\<close>

definition place_order :: "'f env \<Rightarrow> 'f json \<Rightarrow> 'f state \<Rightarrow> 'f outcome" where
  "place_order E fc s =
     (case py_getitem fc ''args'' of
        Inl e \<Rightarrow> (Some e, s)
      | Inr args \<Rightarrow>
     (case py_getitem args ''item'' of
        Inl e \<Rightarrow> (Some e, s)
      | Inr it \<Rightarrow>
     (case py_getitem args ''quantity'' of
        Inl e \<Rightarrow> (Some e, s)
      | Inr qv \<Rightarrow>
     (case py_int (lib E) qv of
        Inl e \<Rightarrow> (Some e, s)
      | Inr q \<Rightarrow>
     (case py_getitem args ''price'' of
        Inl e \<Rightarrow> (Some e, s)
      | Inr pv \<Rightarrow>
     (case py_float (lib E) pv of
        Inl e \<Rightarrow> (Some e, s)
      | Inr p \<Rightarrow>
     (case save_order E it q p s of
        (Some e, s1) \<Rightarrow> (Some e, s1)
      | (None, s1) \<Rightarrow>
     (case py_getitem fc ''id'' of
        Inl e \<Rightarrow> (Some e, s1)
      | Inr cid \<Rightarrow> ws_send E (tool_response cid) s1))))))))"

text \<open>\<^verbatim>\<open>for fc in response["toolCall"]["functionCalls"]\<close>, on the elements visited.\<close>

fun function_calls :: "'f env \<Rightarrow> 'f json list \<Rightarrow> 'f state \<Rightarrow> 'f outcome" where
  "function_calls E [] s = (None, s)"
| "function_calls E (fc # fcs) s =
     (case py_getitem fc ''name'' of
        Inl e \<Rightarrow> (Some e, s)
      | Inr nm \<Rightarrow>
          if nm = JStr ''place_order'' then
            (case place_order E fc s of
               (Some e, s1) \<Rightarrow> (Some e, s1)
             | (None, s1) \<Rightarrow> function_calls E fcs s1)
          else function_calls E fcs s)"

text \<open>The block \<^verbatim>\<open>if "toolCall" in response\<close>.\<close>

definition tool_call_block :: "'f env \<Rightarrow> 'f json \<Rightarrow> 'f state \<Rightarrow> 'f outcome" where
  "tool_call_block E response s =
     (case py_in ''toolCall'' response of
        Inl e \<Rightarrow> (Some e, s)
      | Inr False \<Rightarrow> (None, s)
      | Inr True \<Rightarrow>
     (case py_getitem response ''toolCall'' of
        Inl e \<Rightarrow> (Some e, s)
      | Inr tc \<Rightarrow>
     (case py_getitem tc ''functionCalls'' of
        Inl e \<Rightarrow> (Some e, s)
      | Inr fcsv \<Rightarrow>
     (case py_iter fcsv of
        Inl e \<Rightarrow> (Some e, s)
      | Inr fcs \<Rightarrow> function_calls E fcs s))))"

text \<open>\<^verbatim>\<open>for part in parts\<close>: a part with \<^verbatim>\<open>inlineData\<close> gives one client frame.\<close>

fun forward_parts :: "'f env \<Rightarrow> 'f json list \<Rightarrow> 'f state \<Rightarrow> 'f outcome" where
  "forward_parts E [] s = (None, s)"
| "forward_parts E (part # parts) s =
     (case py_in ''inlineData'' part of
        Inl e \<Rightarrow> (Some e, s)
      | Inr False \<Rightarrow> forward_parts E parts s
      | Inr True \<Rightarrow>
     (case py_getitem part ''inlineData'' of
        Inl e \<Rightarrow> (Some e, s)
      | Inr idata \<Rightarrow>
     (case py_getitem idata ''data'' of
        Inl e \<Rightarrow> (Some e, s)
      | Inr d \<Rightarrow>
     (case send_json E (audio_frame d) s of
        (Some e, s1) \<Rightarrow> (Some e, s1)
      | (None, s1) \<Rightarrow> forward_parts E parts s1))))"

text \<open>
  The block \<^verbatim>\<open>if "serverContent" in response\<close>, with
  \<^verbatim>\<open>parts = response["serverContent"].get("modelTurn", {}).get("parts", [])\<close>.
\<close>

definition server_content_block :: "'f env \<Rightarrow> 'f json \<Rightarrow> 'f state \<Rightarrow> 'f outcome" where
  "server_content_block E response s =
     (case py_in ''serverContent'' response of
        Inl e \<Rightarrow> (Some e, s)
      | Inr False \<Rightarrow> (None, s)
      | Inr True \<Rightarrow>
     (case py_getitem response ''serverContent'' of
        Inl e \<Rightarrow> (Some e, s)
      | Inr sc \<Rightarrow>
     (case py_get sc ''modelTurn'' (JObj []) of
        Inl e \<Rightarrow> (Some e, s)
      | Inr mt \<Rightarrow>
     (case py_get mt ''parts'' (JArr []) of
        Inl e \<Rightarrow> (Some e, s)
      | Inr pv \<Rightarrow>
     (case py_iter pv of
        Inl e \<Rightarrow> (Some e, s)
      | Inr parts \<Rightarrow> forward_parts E parts s)))))"

text \<open>The body of \<^verbatim>\<open>async for msg in self.ws\<close>.\<close>

definition gemini_frame :: "'f env \<Rightarrow> string \<Rightarrow> 'f state \<Rightarrow> 'f outcome" where
  "gemini_frame E msg s =
     (case loads (lib E) msg of
        Inl e \<Rightarrow> (Some e, s)
      | Inr response \<Rightarrow>
          (case tool_call_block E response s of
             (Some e, s1) \<Rightarrow> (Some e, s1)
           | (None, s1) \<Rightarrow> server_content_block E response s1))"

fun gemini_to_browser :: "'f env \<Rightarrow> string list \<Rightarrow> py_exn option \<Rightarrow> 'f state \<Rightarrow> 'f outcome" where
  "gemini_to_browser E [] None s = (None, s)"
| "gemini_to_browser E [] (Some e) s = (Some e, s\<lparr>log := log s @ [LogGeminiDisconnected e]\<rparr>)"
| "gemini_to_browser E (m # ms) ending s =
     (case gemini_frame E m s of
        (Some e, s') \<Rightarrow> (Some e, s'\<lparr>log := log s' @ [LogGeminiDisconnected e]\<rparr>)
      | (None, s') \<Rightarrow> gemini_to_browser E ms ending s')"

section \<open>The session: run\<close>




datatype task_result = Returned | Raised py_exn


text \<open>
  The two tasks under \<^verbatim>\<open>asyncio.wait(_, return_when=FIRST_COMPLETED)\<close>. Each arrival is
  handled to completion by the loop it belongs to; the first loop that returns or
  raises is the completed task. \<open>None\<close>: no task has completed on these arrivals, and
  \<^verbatim>\<open>wait\<close> has not returned.
\<close>

fun wait_first_completed :: "'f env \<Rightarrow> event list \<Rightarrow> 'f state \<Rightarrow> (task \<times> task_result) option \<times> 'f state" where
  "wait_first_completed E [] s = (None, s)"
| "wait_first_completed E (ClientFrame m # evs) s =
     (case browser_frame E m s of
        (Some e, s') \<Rightarrow>
          (Some (BrowserToGemini, Raised e), s'\<lparr>log := log s' @ [LogBrowserDisconnected e]\<rparr>)
      | (None, s') \<Rightarrow> wait_first_completed E evs s')"
| "wait_first_completed E (ClientEnd None # evs) s = (Some (BrowserToGemini, Returned), s)"
| "wait_first_completed E (ClientEnd (Some e) # evs) s =
     (Some (BrowserToGemini, Raised e), s\<lparr>log := log s @ [LogBrowserDisconnected e]\<rparr>)"
| "wait_first_completed E (UpstreamFrame m # evs) s =
     (case gemini_frame E m s of
        (Some e, s') \<Rightarrow>
          (Some (GeminiToBrowser, Raised e), s'\<lparr>log := log s' @ [LogGeminiDisconnected e]\<rparr>)
      | (None, s') \<Rightarrow> wait_first_completed E evs s')"
| "wait_first_completed E (UpstreamEnd None # evs) s = (Some (GeminiToBrowser, Returned), s)"
| "wait_first_completed E (UpstreamEnd (Some e) # evs) s =
     (Some (GeminiToBrowser, Raised e), s\<lparr>log := log s @ [LogGeminiDisconnected e]\<rparr>)"





section \<open>Example inputs\<close>

text \<open>
  Concrete frames, a library that knows them, an environment without faults and the
  empty initial state. Floats are rationals here.
\<close>

definition audio_text :: string where
  \<open>audio_text = ''{"type":"audio","audio":"AAA="}''\<close>

definition ping_text :: string where
  \<open>ping_text = ''{"type":"ping"}''\<close>

definition list_text :: string where
  \<open>list_text = ''[]''\<close>

definition order_text :: string where
  \<open>order_text = ''{"toolCall":{"functionCalls":[{"name":"place_order","id":"call-1","args":{"item":"Biryani","quantity":2,"price":350}}]}}''\<close>

definition refund_text :: string where
  \<open>refund_text = ''{"toolCall":{"functionCalls":[{"name":"place_order","id":"call-2","args":{"item":"Biryani","quantity":-2,"price":-5}}]}}''\<close>

definition content_text :: string where
  \<open>content_text = ''{"serverContent":{"modelTurn":{"parts":[{"inlineData":{"data":"UklG"}},{"text":"ok"},{"inlineData":{"data":"RkY="}}]}}}''\<close>

definition mixed_text :: string where
  \<open>mixed_text = ''{"toolCall":{"functionCalls":[{"name":"place_order","id":"call-3","args":{"item":"Biryani","quantity":1,"price":350}}]},"serverContent":{"modelTurn":{"parts":[{"inlineData":{"data":"UklG"}}]}}}''\<close>

definition noaudio_text :: string where
  \<open>noaudio_text = ''{"type":"audio"}''\<close>

definition broken_order_text :: string where
  \<open>broken_order_text = ''{"toolCall":{"functionCalls":[{"name":"place_order","id":"call-4","args":{"item":"Biryani","quantity":1}},{"name":"place_order","id":"call-5","args":{"item":"Biryani","quantity":2,"price":350}}]}}''\<close>

definition partly_text :: string where
  \<open>partly_text = ''{"toolCall":{"functionCalls":[{"name":"place_order","id":"call-6","args":{"item":"Biryani","quantity":2,"price":350}},{"name":"place_order","id":"call-7","args":{"item":"Biryani","quantity":1}}]}}''\<close>

definition mixed_bad_text :: string where
  \<open>mixed_bad_text = ''{"toolCall":{"functionCalls":[{"name":"place_order","id":"call-8","args":{"item":"Biryani","quantity":1}}]},"serverContent":{"modelTurn":{"parts":[{"inlineData":{"data":"UklG"}}]}}}''\<close>

definition half_text :: string where
  \<open>half_text = ''{"serverContent":{"modelTurn":{"parts":[{"inlineData":{"data":"UklG"}},{"inlineData":{}}]}}}''\<close>

definition order_call :: "string \<Rightarrow> int \<Rightarrow> int \<Rightarrow> rat json" where
  "order_call cid q p =
     JObj [(''name'', JStr ''place_order''), (''id'', JStr cid),
           (''args'', JObj [(''item'', JStr ''Biryani''), (''quantity'', JInt q), (''price'', JInt p)])]"

definition bad_call :: "string \<Rightarrow> rat json" where
  "bad_call cid =
     JObj [(''name'', JStr ''place_order''), (''id'', JStr cid),
           (''args'', JObj [(''item'', JStr ''Biryani''), (''quantity'', JInt 1)])]"

definition demo_loads :: "string \<Rightarrow> py_exn + rat json" where
  "demo_loads t =
     (if t = audio_text then Inr (JObj [(''type'', JStr ''audio''), (''audio'', JStr ''AAA='')])
      else if t = ping_text then Inr (JObj [(''type'', JStr ''ping'')])
      else if t = list_text then Inr (JArr [])
      else if t = order_text then
        Inr (JObj [(''toolCall'', JObj [(''functionCalls'', JArr [order_call ''call-1'' 2 350])])])
      else if t = refund_text then
        Inr (JObj [(''toolCall'', JObj [(''functionCalls'', JArr [order_call ''call-2'' (-2) (-5)])])])
      else if t = content_text then
        Inr (JObj [(''serverContent'', JObj [(''modelTurn'', JObj [(''parts'',
               JArr [JObj [(''inlineData'', JObj [(''data'', JStr ''UklG'')])],
                     JObj [(''text'', JStr ''ok'')],
                     JObj [(''inlineData'', JObj [(''data'', JStr ''RkY='')])]])])])])
      else if t = mixed_text then
        Inr (JObj [(''toolCall'', JObj [(''functionCalls'', JArr [order_call ''call-3'' 1 350])]),
                   (''serverContent'', JObj [(''modelTurn'', JObj [(''parts'',
                      JArr [JObj [(''inlineData'', JObj [(''data'', JStr ''UklG'')])]])])])])
      else if t = noaudio_text then Inr (JObj [(''type'', JStr ''audio'')])
      else if t = broken_order_text then
        Inr (JObj [(''toolCall'', JObj [(''functionCalls'',
               JArr [bad_call ''call-4'', order_call ''call-5'' 2 350])])])
      else if t = partly_text then
        Inr (JObj [(''toolCall'', JObj [(''functionCalls'',
               JArr [order_call ''call-6'' 2 350, bad_call ''call-7''])])])
      else if t = mixed_bad_text then
        Inr (JObj [(''toolCall'', JObj [(''functionCalls'', JArr [bad_call ''call-8''])]),
                   (''serverContent'', JObj [(''modelTurn'', JObj [(''parts'',
                      JArr [JObj [(''inlineData'', JObj [(''data'', JStr ''UklG'')])]])])])])
      else if t = half_text then
        Inr (JObj [(''serverContent'', JObj [(''modelTurn'', JObj [(''parts'',
               JArr [JObj [(''inlineData'', JObj [(''data'', JStr ''UklG'')])],
                     JObj [(''inlineData'', JObj [])]])])])])
      else Inl JSONDecodeError)"

definition demo_lib :: "rat pylib" where
  "demo_lib =
     \<lparr>loads = demo_loads,
      dumps_indent2 = (\<lambda>j. ''null''),
      int_of_float = (\<lambda>x. Inr (if 0 \<le> x then \<lfloor>x\<rfloor> else \<lceil>x\<rceil>)),
      int_of_str = (\<lambda>s. Inl ValueError),
      float_of_int = (\<lambda>n. Inr (of_int n)),
      float_of_str = (\<lambda>s. Inl ValueError)\<rparr>"

definition demo_env :: "rat env" where
  "demo_env =
     \<lparr>lib = demo_lib, menu = Missing, connect_fault = None,
      up_fault = (\<lambda>n. None), cl_fault = (\<lambda>n. None), db_fault = (\<lambda>n. None),
      db_now = (\<lambda>n. 1000 + n), schedule = []\<rparr>"

definition state0 :: "rat state" where
  "state0 = \<lparr>orders = [], save_calls = [], up_sent = [], cl_sent = [], log = [],
             up_closed = 0, cl_closed = 0, cancelled = []\<rparr>"

lemmas demo_simps = demo_env_def demo_lib_def demo_loads_def state0_def audio_text_def
  ping_text_def list_text_def order_text_def refund_text_def content_text_def mixed_text_def
  noaudio_text_def broken_order_text_def partly_text_def mixed_bad_text_def half_text_def
  order_call_def bad_call_def

section \<open>Notions used in the statements\<close>


text \<open>Two states agree on what was sent and on the calls of \<^verbatim>\<open>save_order\<close>.\<close>

definition same_io :: "'f state \<Rightarrow> 'f state \<Rightarrow> bool" where
  "same_io s t \<longleftrightarrow>
     save_calls s = save_calls t \<and> up_sent s = up_sent t \<and> cl_sent s = cl_sent t"


text \<open>
  Parts of a server-content frame: the payload of a part that carries
  \<^verbatim>\<open>inlineData\<close>, whether a part has the key, and the parts the loop handles
  without exception: an object whose \<^verbatim>\<open>inlineData\<close>, when present, is an object with
  a \<^verbatim>\<open>data\<close> key; a list or a string in which \<^verbatim>\<open>"inlineData" in part\<close> is false.
\<close>

fun inline_data :: "'f json \<Rightarrow> 'f json option" where
  "inline_data (JObj p) =
     (case map_of p ''inlineData'' of Some (JObj i) \<Rightarrow> map_of i ''data'' | _ \<Rightarrow> None)"
| "inline_data _ = None"

fun has_inline :: "'f json \<Rightarrow> bool" where
  "has_inline (JObj p) = (map_of p ''inlineData'' \<noteq> None)"
| "has_inline _ = False"

fun is_part :: "'f json \<Rightarrow> bool" where
  "is_part (JObj p) =
     (case map_of p ''inlineData'' of
        None \<Rightarrow> True
      | Some (JObj i) \<Rightarrow> map_of i ''data'' \<noteq> None
      | Some _ \<Rightarrow> False)"
| "is_part (JArr xs) = (JStr ''inlineData'' \<notin> set xs)"
| "is_part (JStr s) = (\<not> str_contains ''inlineData'' s)"
| "is_part _ = False"

text \<open>
  Function calls of a tool-call frame: a call named \<^verbatim>\<open>place_order\<close>; the arguments
  \<^verbatim>\<open>(item, int(quantity), float(price))\<close> and the id of a call that has them all; a call
  the protocol allows (an object with a name, and valid when named \<^verbatim>\<open>place_order\<close>);
  the valid \<^verbatim>\<open>place_order\<close> calls of a list, in order.
\<close>

fun named_place_order :: "'f json \<Rightarrow> bool" where
  "named_place_order (JObj c) = (map_of c ''name'' = Some (JStr ''place_order''))"
| "named_place_order _ = False"

fun order_of_call :: "'f pylib \<Rightarrow> 'f json \<Rightarrow> (('f json \<times> int \<times> 'f) \<times> 'f json) option" where
  "order_of_call L (JObj c) =
     (case (map_of c ''args'', map_of c ''id'') of
        (Some (JObj a), Some cid) \<Rightarrow>
          (case (map_of a ''item'', map_of a ''quantity'', map_of a ''price'') of
             (Some it, Some qv, Some pv) \<Rightarrow>
               (case (py_int L qv, py_float L pv) of
                  (Inr q, Inr p) \<Rightarrow> Some ((it, q, p), cid)
                | _ \<Rightarrow> None)
           | _ \<Rightarrow> None)
      | _ \<Rightarrow> None)"
| "order_of_call L _ = None"

fun call_ok :: "'f pylib \<Rightarrow> 'f json \<Rightarrow> bool" where
  "call_ok L (JObj c) =
     (case map_of c ''name'' of
        None \<Rightarrow> False
      | Some nm \<Rightarrow> if nm = JStr ''place_order'' then order_of_call L (JObj c) \<noteq> None else True)"
| "call_ok L _ = False"

definition placed :: "'f pylib \<Rightarrow> 'f json list \<Rightarrow> (('f json \<times> int \<times> 'f) \<times> 'f json) list" where
  "placed L fcs = List.map_filter (order_of_call L) (filter named_place_order fcs)"

section \<open>What every step preserves\<close>






lemma save_order_returns: "fst (save_order E it q p s) = None"
  by (simp add: save_order_def save_order_try_def split: option.splits)

























section \<open>Database faults do not change what the loops do\<close>

lemma outcome_case:
  "(case p of (None, s1) \<Rightarrow> k s1 | (Some e, s1) \<Rightarrow> (Some e, s1)) =
   (if fst p = None then k (snd p) else p)"
  by (cases p; cases "fst p") auto

lemma ni_ws_send:
  "same_io s t \<Longrightarrow>
   fst (ws_send E fr s) = fst (ws_send (E\<lparr>db_fault := f\<rparr>) fr t) \<and>
   same_io (snd (ws_send E fr s)) (snd (ws_send (E\<lparr>db_fault := f\<rparr>) fr t))"
  by (simp add: ws_send_def same_io_def split: option.splits)

lemma ni_send_json:
  "same_io s t \<Longrightarrow>
   fst (send_json E fr s) = fst (send_json (E\<lparr>db_fault := f\<rparr>) fr t) \<and>
   same_io (snd (send_json E fr s)) (snd (send_json (E\<lparr>db_fault := f\<rparr>) fr t))"
  by (simp add: send_json_def same_io_def split: option.splits)

lemma ni_save_order:
  "same_io s t \<Longrightarrow>
   same_io (snd (save_order E it q p s)) (snd (save_order (E\<lparr>db_fault := f\<rparr>) it q p t))"
  by (simp add: save_order_def save_order_try_def same_io_def split: option.splits)

lemma ni_place_order:
  assumes "same_io s t"
  shows "fst (place_order E fc s) = fst (place_order (E\<lparr>db_fault := f\<rparr>) fc t) \<and>
         same_io (snd (place_order E fc s)) (snd (place_order (E\<lparr>db_fault := f\<rparr>) fc t))"
  using assms ni_save_order [OF assms, of E _ _ _ f]
  by (auto simp: place_order_def outcome_case save_order_returns ni_ws_send
        split: sum.splits)

lemma ni_function_calls:
  "same_io s t \<Longrightarrow>
   fst (function_calls E fcs s) = fst (function_calls (E\<lparr>db_fault := f\<rparr>) fcs t) \<and>
   same_io (snd (function_calls E fcs s)) (snd (function_calls (E\<lparr>db_fault := f\<rparr>) fcs t))"
proof (induction fcs arbitrary: s t)
  case Nil
  then show ?case by simp
next
  case (Cons fc fcs)
  note po = ni_place_order [OF Cons.prems, of E fc f]
  show ?case
  proof (cases "py_getitem fc ''name''")
    case (Inl e)
    then show ?thesis using Cons.prems by simp
  next
    case (Inr nm)
    show ?thesis
    proof (cases "nm = JStr ''place_order''")
      case False
      with Inr show ?thesis using Cons.IH [OF Cons.prems] by simp
    next
      case True
      show ?thesis
      proof (cases "fst (place_order E fc s)")
        case None
        with Inr True po show ?thesis
          using Cons.IH [of "snd (place_order E fc s)" "snd (place_order (E\<lparr>db_fault := f\<rparr>) fc t)"]
          by (simp add: outcome_case)
      next
        case (Some e)
        with Inr True po show ?thesis
          by (auto simp: outcome_case)
      qed
    qed
  qed
qed

lemma ni_tool_call_block:
  "same_io s t \<Longrightarrow>
   fst (tool_call_block E r s) = fst (tool_call_block (E\<lparr>db_fault := f\<rparr>) r t) \<and>
   same_io (snd (tool_call_block E r s)) (snd (tool_call_block (E\<lparr>db_fault := f\<rparr>) r t))"
  by (auto simp: tool_call_block_def ni_function_calls split: sum.splits bool.splits)

lemma ni_forward_parts:
  "same_io s t \<Longrightarrow>
   fst (forward_parts E ps s) = fst (forward_parts (E\<lparr>db_fault := f\<rparr>) ps t) \<and>
   same_io (snd (forward_parts E ps s)) (snd (forward_parts (E\<lparr>db_fault := f\<rparr>) ps t))"
proof (induction ps arbitrary: s t)
  case Nil
  then show ?case by simp
next
  case (Cons part ps)
  show ?case
    using Cons.prems Cons.IH [OF Cons.prems]
      Cons.IH [of "snd (send_json E fr s)" "snd (send_json (E\<lparr>db_fault := f\<rparr>) fr t)" for fr]
      ni_send_json [OF Cons.prems, of E _ f]
    by (auto simp: outcome_case split: sum.splits bool.splits)
qed

lemma ni_server_content_block:
  "same_io s t \<Longrightarrow>
   fst (server_content_block E r s) = fst (server_content_block (E\<lparr>db_fault := f\<rparr>) r t) \<and>
   same_io (snd (server_content_block E r s))
     (snd (server_content_block (E\<lparr>db_fault := f\<rparr>) r t))"
  by (auto simp: server_content_block_def ni_forward_parts split: sum.splits bool.splits)

lemma ni_gemini_frame:
  assumes "same_io s t"
  shows "fst (gemini_frame E m s) = fst (gemini_frame (E\<lparr>db_fault := f\<rparr>) m t) \<and>
         same_io (snd (gemini_frame E m s)) (snd (gemini_frame (E\<lparr>db_fault := f\<rparr>) m t))"
proof (cases "loads (lib E) m")
  case (Inl e)
  then show ?thesis using assms by (simp add: gemini_frame_def)
next
  case (Inr r)
  note tc = ni_tool_call_block [OF assms, of E r f]
  show ?thesis
    using Inr tc
      ni_server_content_block [of "snd (tool_call_block E r s)"
         "snd (tool_call_block (E\<lparr>db_fault := f\<rparr>) r t)" E r f]
    by (simp add: gemini_frame_def outcome_case)
qed

lemma same_io_log: "same_io s t \<Longrightarrow> same_io (s\<lparr>log := a\<rparr>) (t\<lparr>log := b\<rparr>)"
  by (simp add: same_io_def)

lemma ni_gemini_to_browser:
  "same_io s t \<Longrightarrow>
   fst (gemini_to_browser E ms ending s) = fst (gemini_to_browser (E\<lparr>db_fault := f\<rparr>) ms ending t) \<and>
   same_io (snd (gemini_to_browser E ms ending s))
     (snd (gemini_to_browser (E\<lparr>db_fault := f\<rparr>) ms ending t))"
proof (induction ms arbitrary: s t)
  case Nil
  then show ?case by (cases ending) (simp_all add: same_io_log)
next
  case (Cons m ms)
  note gf = ni_gemini_frame [OF Cons.prems, of E m f]
  show ?case
  proof (cases "gemini_frame E m s")
    case p1: (Pair x s1)
    show ?thesis
    proof (cases "gemini_frame (E\<lparr>db_fault := f\<rparr>) m t")
      case p2: (Pair y t1)
      from gf p1 p2 have xy: "x = y" and io: "same_io s1 t1" by simp_all
      show ?thesis
      proof (cases x)
        case None
        with p1 p2 xy show ?thesis using Cons.IH [OF io] by simp
      next
        case (Some e)
        with p1 p2 xy io show ?thesis by (auto simp: same_io_log)
      qed
    qed
  qed
qed

lemma ni_browser_frame:
  "same_io s t \<Longrightarrow>
   fst (browser_frame E m s) = fst (browser_frame (E\<lparr>db_fault := f\<rparr>) m t) \<and>
   same_io (snd (browser_frame E m s)) (snd (browser_frame (E\<lparr>db_fault := f\<rparr>) m t))"
  by (auto simp: browser_frame_def ni_ws_send split: sum.splits)

lemma ni_wait:
  "same_io s t \<Longrightarrow>
   fst (wait_first_completed E evs s) = fst (wait_first_completed (E\<lparr>db_fault := f\<rparr>) evs t) \<and>
   same_io (snd (wait_first_completed E evs s))
     (snd (wait_first_completed (E\<lparr>db_fault := f\<rparr>) evs t))"
proof (induction evs arbitrary: s t)
  case Nil
  then show ?case by simp
next
  case (Cons ev evs)
  show ?case
  proof (cases ev)
    case (ClientFrame m)
    note bf = ni_browser_frame [OF Cons.prems, of E m f]
    obtain x s1 where p1: "browser_frame E m s = (x, s1)" by (cases "browser_frame E m s")
    obtain y t1 where p2: "browser_frame (E\<lparr>db_fault := f\<rparr>) m t = (y, t1)"
      by (cases "browser_frame (E\<lparr>db_fault := f\<rparr>) m t")
    from bf p1 p2 have xy: "x = y" and io: "same_io s1 t1" by simp_all
    show ?thesis
    proof (cases x)
      case None
      with ClientFrame p1 p2 xy show ?thesis using Cons.IH [OF io] by simp
    next
      case (Some e)
      with ClientFrame p1 p2 xy io show ?thesis by (auto simp: same_io_log)
    qed
  next
    case (ClientEnd x)
    then show ?thesis using Cons.prems by (cases x) (simp_all add: same_io_log)
  next
    case (UpstreamFrame m)
    note gf = ni_gemini_frame [OF Cons.prems, of E m f]
    obtain x s1 where p1: "gemini_frame E m s = (x, s1)" by (cases "gemini_frame E m s")
    obtain y t1 where p2: "gemini_frame (E\<lparr>db_fault := f\<rparr>) m t = (y, t1)"
      by (cases "gemini_frame (E\<lparr>db_fault := f\<rparr>) m t")
    from gf p1 p2 have xy: "x = y" and io: "same_io s1 t1" by simp_all
    show ?thesis
    proof (cases x)
      case None
      with UpstreamFrame p1 p2 xy show ?thesis using Cons.IH [OF io] by simp
    next
      case (Some e)
      with UpstreamFrame p1 p2 xy io show ?thesis by (auto simp: same_io_log)
    qed
  next
    case (UpstreamEnd x)
    then show ?thesis using Cons.prems by (cases x) (simp_all add: same_io_log)
  qed
qed

lemma same_io_refl: "same_io s s"
  by (simp add: same_io_def)

section \<open>Well-formed frames are handled completely\<close>

lemma forward_parts_step:
  assumes "is_part part" and "cl_fault E (length (cl_sent s)) = None"
  shows "forward_parts E (part # parts) s =
           forward_parts E parts
             (case inline_data part of
                None \<Rightarrow> s
              | Some d \<Rightarrow> s\<lparr>cl_sent := cl_sent s @ [audio_frame d]\<rparr>)"
proof (cases part)
  case (JObj p)
  show ?thesis
  proof (cases "map_of p ''inlineData''")
    case None
    with JObj show ?thesis by simp
  next
    case (Some v)
    with JObj assms(1) obtain i d where "v = JObj i" "map_of i ''data'' = Some d"
      by (cases v) auto
    with JObj Some assms(2) show ?thesis
      by (simp add: send_json_def)
  qed
qed (use assms in simp_all)

lemma forward_parts_ok:
  assumes "list_all is_part parts" and "\<forall>n. cl_fault E n = None"
  shows "forward_parts E parts s =
           (None, s\<lparr>cl_sent := cl_sent s @ map audio_frame (List.map_filter inline_data parts)\<rparr>)"
  using assms(1)
proof (induction parts arbitrary: s)
  case Nil
  then show ?case by (simp add: List.map_filter_simps)
next
  case (Cons part parts)
  then have p: "is_part part" and ps: "list_all is_part parts" by simp_all
  show ?case
    using forward_parts_step [OF p, of E s parts] assms(2) Cons.IH [OF ps]
    by (cases "inline_data part") (simp_all add: List.map_filter_simps)
qed

lemma count_inline:
  "list_all is_part parts \<Longrightarrow>
   length (List.map_filter inline_data parts) = length (filter has_inline parts)"
proof (induction parts)
  case Nil
  show ?case by (simp add: List.map_filter_simps)
next
  case (Cons part parts)
  then show ?case
    by (cases part) (auto simp: List.map_filter_simps split: option.splits json.splits)
qed

lemma place_order_valid:
  assumes "order_of_call (lib E) fc = Some ((it, q, p), cid)"
  shows "place_order E fc s = ws_send E (tool_response cid) (snd (save_order E it q p s))"
proof -
  from assms obtain c where c: "fc = JObj c" by (cases fc) simp_all
  from assms c obtain a qv pv where
    a: "map_of c ''args'' = Some (JObj a)" "map_of c ''id'' = Some cid" and
    v: "map_of a ''item'' = Some it" "map_of a ''quantity'' = Some qv" "map_of a ''price'' = Some pv"
       "py_int (lib E) qv = Inr q" "py_float (lib E) pv = Inr p"
    by (auto split: option.splits json.splits sum.splits)
  show ?thesis
    using c a v save_order_returns [of E it q p s]
    by (simp add: place_order_def outcome_case)
qed

lemma save_order_io:
  "save_calls (snd (save_order E it q p s)) = save_calls s @ [(it, q, p)] \<and>
   up_sent (snd (save_order E it q p s)) = up_sent s"
  by (simp add: save_order_def save_order_try_def split: option.splits)

lemma function_calls_valid:
  assumes "list_all (call_ok (lib E)) fcs" and "\<forall>n. up_fault E n = None"
  shows "fst (function_calls E fcs s) = None \<and>
         save_calls (snd (function_calls E fcs s)) = save_calls s @ map fst (placed (lib E) fcs) \<and>
         up_sent (snd (function_calls E fcs s)) =
           up_sent s @ map (\<lambda>x. tool_response (snd x)) (placed (lib E) fcs)"
  using assms(1)
proof (induction fcs arbitrary: s)
  case Nil
  show ?case by (simp add: placed_def List.map_filter_simps)
next
  case (Cons fc fcs)
  from Cons.prems obtain c where c: "fc = JObj c" by (cases fc) simp_all
  from Cons.prems c obtain nm where nm: "map_of c ''name'' = Some nm"
    by (auto split: option.splits)
  from Cons.prems have rest: "list_all (call_ok (lib E)) fcs" by simp
  show ?case
  proof (cases "nm = JStr ''place_order''")
    case False
    with c nm show ?thesis
      using Cons.IH [OF rest, of s] by (simp add: placed_def)
  next
    case True
    with Cons.prems c nm obtain it q p cid where
      oc: "order_of_call (lib E) fc = Some ((it, q, p), cid)"
      by (cases "order_of_call (lib E) (JObj c)") auto
    let ?s1 = "snd (save_order E it q p s)"
    let ?s2 = "?s1\<lparr>up_sent := up_sent ?s1 @ [tool_response cid]\<rparr>"
    have po: "place_order E fc s = (None, ?s2)"
      using assms(2) by (simp add: place_order_valid [OF oc] ws_send_def)
    have pl: "placed (lib E) (fc # fcs) = ((it, q, p), cid) # placed (lib E) fcs"
      using c nm True oc by (simp add: placed_def List.map_filter_simps)
    show ?thesis
      using c nm True po pl Cons.IH [OF rest, of ?s2] save_order_io [of E it q p s]
      by simp
  qed
qed

lemma placed_count:
  "list_all (call_ok L) fcs \<Longrightarrow> length (placed L fcs) = length (filter named_place_order fcs)"
proof (induction fcs)
  case Nil
  show ?case by (simp add: placed_def List.map_filter_simps)
next
  case (Cons fc fcs)
  then have ih: "length (placed L fcs) = length (filter named_place_order fcs)" by simp
  show ?case
  proof (cases "named_place_order fc")
    case False
    then show ?thesis using ih by (simp add: placed_def)
  next
    case True
    then obtain c where c: "fc = JObj c" "map_of c ''name'' = Some (JStr ''place_order'')"
      by (cases fc) simp_all
    with Cons.prems obtain x where "order_of_call L fc = Some x"
      by (cases "order_of_call L (JObj c)") auto
    with True show ?thesis using ih by (simp add: placed_def List.map_filter_simps)
  qed
qed

lemma forward_parts_io:
  "save_calls (snd (forward_parts E ps s)) = save_calls s \<and>
   up_sent (snd (forward_parts E ps s)) = up_sent s"
proof (induction ps arbitrary: s)
  case Nil
  show ?case by simp
next
  case (Cons part ps)
  have sj: "save_calls (snd (send_json E fr s)) = save_calls s \<and>
            up_sent (snd (send_json E fr s)) = up_sent s" for fr
    by (simp add: send_json_def split: option.splits)
  show ?case
    using Cons.IH sj
    by (auto simp: outcome_case split: sum.splits bool.splits)
qed

lemma server_content_io:
  "save_calls (snd (server_content_block E r s)) = save_calls s \<and>
   up_sent (snd (server_content_block E r s)) = up_sent s"
  by (auto simp: server_content_block_def forward_parts_io split: sum.splits bool.splits)

lemma save_order_cl_sent: "cl_sent (snd (save_order E it q p s)) = cl_sent s"
  by (simp add: save_order_def save_order_try_def split: option.splits)

lemma function_calls_cl_sent:
  assumes "list_all (call_ok (lib E)) fcs" and "\<forall>n. up_fault E n = None"
  shows "cl_sent (snd (function_calls E fcs s)) = cl_sent s"
  using assms(1)
proof (induction fcs arbitrary: s)
  case Nil
  show ?case by simp
next
  case (Cons fc fcs)
  from Cons.prems obtain c where c: "fc = JObj c" by (cases fc) simp_all
  from Cons.prems c obtain nm where nm: "map_of c ''name'' = Some nm"
    by (auto split: option.splits)
  from Cons.prems have rest: "list_all (call_ok (lib E)) fcs" by simp
  show ?case
  proof (cases "nm = JStr ''place_order''")
    case False
    with c nm show ?thesis using Cons.IH [OF rest, of s] by simp
  next
    case True
    with Cons.prems c nm obtain it q p cid where
      oc: "order_of_call (lib E) fc = Some ((it, q, p), cid)"
      by (cases "order_of_call (lib E) (JObj c)") auto
    let ?s1 = "snd (save_order E it q p s)"
    let ?s2 = "?s1\<lparr>up_sent := up_sent ?s1 @ [tool_response cid]\<rparr>"
    have po: "place_order E fc s = (None, ?s2)"
      using assms(2) by (simp add: place_order_valid [OF oc] ws_send_def)
    show ?thesis
      using c nm True po Cons.IH [OF rest, of ?s2] save_order_cl_sent [of E it q p s]
      by simp
  qed
qed

section \<open>What a frame adds to the traces and to the table\<close>

lemma grows_ws_send:
  "save_calls (snd (ws_send E fr s)) = save_calls s \<and>
   (\<exists>b. up_sent (snd (ws_send E fr s)) = up_sent s @ b)"
  by (simp add: ws_send_def split: option.splits)

lemma grows_place_order:
  "\<exists>a b. save_calls (snd (place_order E fc s)) = save_calls s @ a \<and>
         up_sent (snd (place_order E fc s)) = up_sent s @ b"
proof -
  have "\<exists>a b. save_calls (snd (ws_send E fr (snd (save_order E it q p s)))) = save_calls s @ a \<and>
         up_sent (snd (ws_send E fr (snd (save_order E it q p s)))) = up_sent s @ b" for fr it q p
    using grows_ws_send [of E fr "snd (save_order E it q p s)"] save_order_io [of E it q p s]
    by auto
  moreover have "\<exists>a b. save_calls (snd (save_order E it q p s)) = save_calls s @ a \<and>
         up_sent (snd (save_order E it q p s)) = up_sent s @ b" for it q p
    using save_order_io [of E it q p s] by simp
  ultimately show ?thesis
    by (auto simp: place_order_def outcome_case save_order_returns split: sum.splits)
qed

lemma grows_function_calls:
  "\<exists>a b. save_calls (snd (function_calls E fcs s)) = save_calls s @ a \<and>
         up_sent (snd (function_calls E fcs s)) = up_sent s @ b"
proof (induction fcs arbitrary: s)
  case Nil
  show ?case by simp
next
  case (Cons fc fcs)
  obtain a b where po: "save_calls (snd (place_order E fc s)) = save_calls s @ a"
      "up_sent (snd (place_order E fc s)) = up_sent s @ b"
    using grows_place_order [of E fc s] by blast
  obtain a' b' where ih:
      "save_calls (snd (function_calls E fcs (snd (place_order E fc s)))) =
         save_calls (snd (place_order E fc s)) @ a'"
      "up_sent (snd (function_calls E fcs (snd (place_order E fc s)))) =
         up_sent (snd (place_order E fc s)) @ b'"
    using Cons.IH [of "snd (place_order E fc s)"] by blast
  show ?case
    using Cons.IH [of s] po ih
    by (auto simp: outcome_case split: sum.splits)
qed

lemma function_calls_append:
  assumes "list_all (call_ok (lib E)) pre" and "\<forall>n. up_fault E n = None"
  shows "function_calls E (pre @ rest) s = function_calls E rest (snd (function_calls E pre s))"
  using assms(1)
proof (induction pre arbitrary: s)
  case Nil
  show ?case by simp
next
  case (Cons fc pre)
  from Cons.prems obtain c where c: "fc = JObj c" by (cases fc) simp_all
  from Cons.prems c obtain nm where nm: "map_of c ''name'' = Some nm"
    by (auto split: option.splits)
  from Cons.prems have rest: "list_all (call_ok (lib E)) pre" by simp
  show ?case
  proof (cases "nm = JStr ''place_order''")
    case False
    with c nm show ?thesis using Cons.IH [OF rest, of s] by simp
  next
    case True
    with Cons.prems c nm obtain it q p cid where
      oc: "order_of_call (lib E) fc = Some ((it, q, p), cid)"
      by (cases "order_of_call (lib E) (JObj c)") auto
    let ?s1 = "snd (save_order E it q p s)"
    let ?s2 = "?s1\<lparr>up_sent := up_sent ?s1 @ [tool_response cid]\<rparr>"
    have po: "place_order E fc s = (None, ?s2)"
      using assms(2) by (simp add: place_order_valid [OF oc] ws_send_def)
    show ?thesis
      using c nm True po Cons.IH [OF rest, of ?s2] by simp
  qed
qed








section \<open>The outbound loop\<close>

text \<open>
  C4, as the code has it. A client frame that parses to an object with
  \<^verbatim>\<open>"type": "audio"\<close> and an \<^verbatim>\<open>"audio"\<close> payload \<open>p\<close> makes the loop send exactly one
  frame upstream, the realtime-input frame carrying \<open>p\<close> (when the send succeeds), and
  go on with the next frame. A frame that parses to JSON and whose type is not
  \<^verbatim>\<open>"audio"\<close> sends nothing upstream; when it is an object it is dropped without any
  effect and the loop goes on with the next frame. The same holds for the loop as the
  session runs it.
\<close>

theorem audio_frame_forwarded:
  "(loads (lib E) message = Inr (JObj d) \<and> map_of d ''type'' = Some (JStr ''audio'') \<and>
    map_of d ''audio'' = Some p \<and> up_fault E (length (up_sent s)) = None
    \<longrightarrow> browser_frame E message s =
          (None, s\<lparr>up_sent := up_sent s @
             [JObj [(''realtimeInput'',
                  JObj [(''mediaChunks'',
                    JArr [JObj [(''mimeType'', JStr ''audio/pcm''), (''data'', p)]])])]]\<rparr>)
        \<and> browser_to_gemini E (message # ms) ending s =
            browser_to_gemini E ms ending
              (s\<lparr>up_sent := up_sent s @
                 [JObj [(''realtimeInput'',
                    JObj [(''mediaChunks'',
                      JArr [JObj [(''mimeType'', JStr ''audio/pcm''), (''data'', p)]])])]]\<rparr>)
        \<and> wait_first_completed E (ClientFrame message # evs) s =
            wait_first_completed E evs
              (s\<lparr>up_sent := up_sent s @
                 [JObj [(''realtimeInput'',
                    JObj [(''mediaChunks'',
                      JArr [JObj [(''mimeType'', JStr ''audio/pcm''), (''data'', p)]])])]]\<rparr>))
   \<and> (loads (lib E) message = Inr data \<and>
      (\<forall>d. data = JObj d \<longrightarrow> map_of d ''type'' \<noteq> Some (JStr ''audio''))
    \<longrightarrow> up_sent (snd (browser_frame E message s)) = up_sent s \<and>
        (\<forall>d. data = JObj d \<longrightarrow>
           browser_frame E message s = (None, s) \<and>
           browser_to_gemini E (message # ms) ending s = browser_to_gemini E ms ending s \<and>
           wait_first_completed E (ClientFrame message # evs) s =
             wait_first_completed E evs s))"
proof (intro conjI impI)
  assume a: "loads (lib E) message = Inr (JObj d) \<and> map_of d ''type'' = Some (JStr ''audio'') \<and>
    map_of d ''audio'' = Some p \<and> up_fault E (length (up_sent s)) = None"
  let ?s' = "s\<lparr>up_sent := up_sent s @
             [JObj [(''realtimeInput'',
                  JObj [(''mediaChunks'',
                    JArr [JObj [(''mimeType'', JStr ''audio/pcm''), (''data'', p)]])])]]\<rparr>"
  from a show bf: "browser_frame E message s = (None, ?s')"
    by (simp add: browser_frame_def ws_send_def realtime_input_def)
  from bf show "browser_to_gemini E (message # ms) ending s = browser_to_gemini E ms ending ?s'"
    by simp
  from bf show "wait_first_completed E (ClientFrame message # evs) s =
      wait_first_completed E evs ?s'"
    by simp
next
  assume b: "loads (lib E) message = Inr data \<and>
      (\<forall>d. data = JObj d \<longrightarrow> map_of d ''type'' \<noteq> Some (JStr ''audio''))"
  show "up_sent (snd (browser_frame E message s)) = up_sent s"
    using b by (cases data) (auto simp: browser_frame_def split: option.splits)
  have bf: "browser_frame E message s = (None, s)" if "data = JObj d" for d
    using b that by (auto simp: browser_frame_def split: option.splits)
  show "\<forall>d. data = JObj d \<longrightarrow>
           browser_frame E message s = (None, s) \<and>
           browser_to_gemini E (message # ms) ending s = browser_to_gemini E ms ending s \<and>
           wait_first_completed E (ClientFrame message # evs) s =
             wait_first_completed E evs s"
    using bf by simp
qed

text \<open>
  The frames \<^verbatim>\<open>{"type":"audio","audio":"AAA="}\<close> and \<^verbatim>\<open>{"type":"ping"}\<close>, and the loop
  on the second followed by the first.
\<close>

theorem audio_frame_forwarded_witness:
  "loads (lib demo_env) audio_text = Inr (JObj [(''type'', JStr ''audio''), (''audio'', JStr ''AAA='')])
   \<and> browser_frame demo_env audio_text state0 =
       (None, state0\<lparr>up_sent :=
          [JObj [(''realtimeInput'',
             JObj [(''mediaChunks'',
               JArr [JObj [(''mimeType'', JStr ''audio/pcm''), (''data'', JStr ''AAA='')]])])]]\<rparr>)
   \<and> loads (lib demo_env) ping_text = Inr (JObj [(''type'', JStr ''ping'')])
   \<and> browser_frame demo_env ping_text state0 = (None, state0)
   \<and> browser_to_gemini demo_env [ping_text, audio_text] None state0 =
       (None, state0\<lparr>up_sent :=
          [JObj [(''realtimeInput'',
             JObj [(''mediaChunks'',
               JArr [JObj [(''mimeType'', JStr ''audio/pcm''), (''data'', JStr ''AAA='')]])])]]\<rparr>)"
  using audio_frame_forwarded [of demo_env audio_text
          "[(''type'', JStr ''audio''), (''audio'', JStr ''AAA='')]" "JStr ''AAA=''" state0
          "[]" None]
        audio_frame_forwarded [of demo_env ping_text _ _ state0 "[audio_text]" None _
          "JObj [(''type'', JStr ''ping'')]"]
  by (simp add: demo_simps)

text \<open>
  C4 as first stated fails: the frame \<^verbatim>\<open>[]\<close> is JSON whose type is not
  \<^verbatim>\<open>"audio"\<close>, and it is not dropped: the loop ends with \<^verbatim>\<open>AttributeError\<close> and the
  audio frame after it is never forwarded.
\<close>

theorem non_object_frame_ends_loop_counterexample:
  "loads (lib demo_env) list_text = Inr (JArr []) \<and>
   browser_to_gemini demo_env [list_text, audio_text] None state0 =
     (Some AttributeError, state0\<lparr>log := [LogBrowserDisconnected AttributeError]\<rparr>)"
  by (simp add: demo_simps browser_frame_def)




section \<open>The inbound loop\<close>

text \<open>
  C2, as the code has it. In a tool-call frame, for the calls that come before the first
  malformed call (all of them when \<open>rest\<close> is empty), with working upstream sends and
  whatever the database does: \<^verbatim>\<open>save_order\<close> is called exactly once for each call
  named \<^verbatim>\<open>place_order\<close>, in order, with that call's item, quantity and price, and
  exactly one tool-response frame goes upstream for each, carrying the call's id and
  the response \<^verbatim>\<open>{"result": {"status": "success"}}\<close>.
\<close>

theorem place_order_saved_and_acknowledged:
  assumes "loads (lib E) msg = Inr (JObj response)"
    and "map_of response ''toolCall'' = Some (JObj tc)"
    and "map_of tc ''functionCalls'' = Some (JArr (pre @ rest))"
    and "list_all (call_ok (lib E)) pre"
    and "\<forall>n. up_fault E n = None"
  shows "take (length (save_calls s) + length (placed (lib E) pre))
           (save_calls (snd (gemini_frame E msg s))) =
         save_calls s @ map fst (placed (lib E) pre)
       \<and> take (length (up_sent s) + length (placed (lib E) pre))
           (up_sent (snd (gemini_frame E msg s))) =
         up_sent s @
           map (\<lambda>x. JObj [(''toolResponse'',
                   JObj [(''functionResponses'',
                     JArr [JObj [(''name'', JStr ''place_order''),
                                 (''id'', snd x),
                                 (''response'',
                                  JObj [(''result'', JObj [(''status'', JStr ''success'')])])]])])])
             (placed (lib E) pre)
       \<and> (rest = [] \<longrightarrow>
            save_calls (snd (gemini_frame E msg s)) = save_calls s @ map fst (placed (lib E) pre) \<and>
            up_sent (snd (gemini_frame E msg s)) =
              up_sent s @
                map (\<lambda>x. JObj [(''toolResponse'',
                   JObj [(''functionResponses'',
                     JArr [JObj [(''name'', JStr ''place_order''),
                                 (''id'', snd x),
                                 (''response'',
                                  JObj [(''result'', JObj [(''status'', JStr ''success'')])])]])])])
                  (placed (lib E) pre))
       \<and> length (placed (lib E) pre) = length (filter named_place_order pre)"
proof -
  let ?s1 = "snd (function_calls E pre s)"
  let ?s2 = "snd (function_calls E rest ?s1)"
  note fc = function_calls_valid [OF assms(4,5), of s]
  have tr: "tool_response (snd x) =
      JObj [(''toolResponse'',
                   JObj [(''functionResponses'',
                     JArr [JObj [(''name'', JStr ''place_order''),
                                 (''id'', snd x),
                                 (''response'',
                                  JObj [(''result'', JObj [(''status'', JStr ''success'')])])]])])]"
    for x :: "('a json \<times> int \<times> 'a) \<times> 'a json"
    by (simp add: tool_response_def)
  have tcb: "tool_call_block E (JObj response) s = function_calls E rest ?s1"
    using assms(2,3) by (simp add: tool_call_block_def function_calls_append [OF assms(4,5)])
  have io: "save_calls (snd (gemini_frame E msg s)) = save_calls ?s2 \<and>
            up_sent (snd (gemini_frame E msg s)) = up_sent ?s2"
    using assms(1)
    by (cases "fst (function_calls E rest ?s1)")
       (simp_all add: gemini_frame_def tcb outcome_case server_content_io)
  obtain a b where grow: "save_calls ?s2 = save_calls ?s1 @ a" "up_sent ?s2 = up_sent ?s1 @ b"
    using grows_function_calls [of E rest ?s1] by blast
  have len: "length (placed (lib E) pre) = length (filter named_place_order pre)"
    by (rule placed_count [OF assms(4)])
  have nil: "?s2 = ?s1" if "rest = []"
    using that by simp
  show ?thesis
    using io grow fc len nil by (auto simp: tr)
qed

text \<open>
  One order of two Biryani with a database that refuses every commit; and a frame whose
  second call lacks the price.
\<close>

theorem place_order_saved_and_acknowledged_witness:
  "loads (lib (demo_env\<lparr>db_fault := (\<lambda>n. Some (DatabaseError ''locked''))\<rparr>)) order_text =
     Inr (JObj [(''toolCall'', JObj [(''functionCalls'', JArr [order_call ''call-1'' 2 350])])])
   \<and> placed demo_lib [order_call ''call-1'' 2 350] = [((JStr ''Biryani'', 2, 350), JStr ''call-1'')]
   \<and> save_calls (snd (gemini_frame (demo_env\<lparr>db_fault := (\<lambda>n. Some (DatabaseError ''locked''))\<rparr>)
        order_text state0)) = [(JStr ''Biryani'', 2, 350)]
   \<and> up_sent (snd (gemini_frame (demo_env\<lparr>db_fault := (\<lambda>n. Some (DatabaseError ''locked''))\<rparr>)
        order_text state0)) =
       [JObj [(''toolResponse'',
                   JObj [(''functionResponses'',
                     JArr [JObj [(''name'', JStr ''place_order''),
                                 (''id'', JStr ''call-1''),
                                 (''response'',
                                  JObj [(''result'', JObj [(''status'', JStr ''success'')])])]])])]]
   \<and> loads (lib demo_env) partly_text =
     Inr (JObj [(''toolCall'', JObj [(''functionCalls'',
            JArr ([order_call ''call-6'' 2 350] @ [bad_call ''call-7''])) ])])
   \<and> take 1 (save_calls (snd (gemini_frame demo_env partly_text state0))) =
       [(JStr ''Biryani'', 2, 350)]
   \<and> take 1 (up_sent (snd (gemini_frame demo_env partly_text state0))) =
       [JObj [(''toolResponse'',
                   JObj [(''functionResponses'',
                     JArr [JObj [(''name'', JStr ''place_order''),
                                 (''id'', JStr ''call-6''),
                                 (''response'',
                                  JObj [(''result'', JObj [(''status'', JStr ''success'')])])]])])]]"
  using place_order_saved_and_acknowledged
    [where E = "demo_env\<lparr>db_fault := (\<lambda>n. Some (DatabaseError ''locked''))\<rparr>"
       and msg = order_text and s = state0
       and response = "[(''toolCall'', JObj [(''functionCalls'', JArr [order_call ''call-1'' 2 350])])]"
       and tc = "[(''functionCalls'', JArr [order_call ''call-1'' 2 350])]"
       and pre = "[order_call ''call-1'' 2 350]" and rest = "[]"]
    place_order_saved_and_acknowledged
    [where E = demo_env and msg = partly_text and s = state0
       and response = "[(''toolCall'', JObj [(''functionCalls'',
            JArr [order_call ''call-6'' 2 350, bad_call ''call-7''])])]"
       and tc = "[(''functionCalls'', JArr [order_call ''call-6'' 2 350, bad_call ''call-7''])]"
       and pre = "[order_call ''call-6'' 2 350]" and rest = "[bad_call ''call-7'']"]
  by (simp add: demo_simps placed_def List.map_filter_simps)

text \<open>
  C2 as first stated fails: when a call without price comes first, the valid call after
  it is neither saved nor answered; and when the upstream send fails, the order is
  saved and no response is sent.
\<close>

theorem malformed_call_blocks_valid_call_counterexample:
  "loads (lib demo_env) broken_order_text =
     Inr (JObj [(''toolCall'', JObj [(''functionCalls'',
            JArr [bad_call ''call-4'', order_call ''call-5'' 2 350])])])
   \<and> order_of_call demo_lib (order_call ''call-5'' 2 350) =
       Some ((JStr ''Biryani'', 2, 350), JStr ''call-5'')
   \<and> gemini_frame demo_env broken_order_text state0 = (Some (KeyError ''price''), state0)
   \<and> fst (gemini_frame (demo_env\<lparr>up_fault := (\<lambda>n. Some (ConnectionError ''closed''))\<rparr>)
            order_text state0) = Some (ConnectionError ''closed'')
   \<and> save_calls (snd (gemini_frame (demo_env\<lparr>up_fault := (\<lambda>n. Some (ConnectionError ''closed''))\<rparr>)
            order_text state0)) = [(JStr ''Biryani'', 2, 350)]
   \<and> up_sent (snd (gemini_frame (demo_env\<lparr>up_fault := (\<lambda>n. Some (ConnectionError ''closed''))\<rparr>)
            order_text state0)) = []"
  by (simp add: demo_simps gemini_frame_def tool_call_block_def place_order_def
        save_order_def save_order_try_def ws_send_def)

text \<open>
  C5, as the code has it. For a server-content frame whose parts are all well formed,
  with working client sends, and whose tool call, if it has one, is well formed and
  answered: the frame is handled without exception, the client receives exactly one
  \<^verbatim>\<open>audio\<close> frame for each part that carries \<^verbatim>\<open>inlineData\<close>, in the order of the
  parts, with that part's \<^verbatim>\<open>data\<close> unchanged, the other parts give no frame, and
  the loop goes on with the next frame.
\<close>

theorem inline_parts_forwarded:
  assumes "loads (lib E) msg = Inr (JObj response)"
    and "map_of response ''toolCall'' = None \<or>
         (map_of response ''toolCall'' = Some (JObj tc) \<and>
          map_of tc ''functionCalls'' = Some (JArr fcs) \<and>
          list_all (call_ok (lib E)) fcs \<and> (\<forall>n. up_fault E n = None))"
    and "map_of response ''serverContent'' = Some (JObj sc)"
    and "map_of sc ''modelTurn'' = Some (JObj mt)"
    and "map_of mt ''parts'' = Some (JArr parts)"
    and "list_all is_part parts"
    and "\<forall>n. cl_fault E n = None"
  shows "fst (gemini_frame E msg s) = None
         \<and> cl_sent (snd (gemini_frame E msg s)) =
             cl_sent s @
             map (\<lambda>d. JObj [(''type'', JStr ''audio''), (''data'', d)])
               (List.map_filter inline_data parts)
         \<and> length (List.map_filter inline_data parts) = length (filter has_inline parts)
         \<and> gemini_to_browser E (msg # ms) ending s =
             gemini_to_browser E ms ending (snd (gemini_frame E msg s))
         \<and> wait_first_completed E (UpstreamFrame msg # evs) s =
             wait_first_completed E evs (snd (gemini_frame E msg s))"
proof -
  have af: "map audio_frame xs = map (\<lambda>d. JObj [(''type'', JStr ''audio''), (''data'', d)]) xs"
    for xs :: "'a json list"
    by (simp add: audio_frame_def)
  have sc: "server_content_block E (JObj response) s1 =
      (None, s1\<lparr>cl_sent := cl_sent s1 @ map audio_frame (List.map_filter inline_data parts)\<rparr>)"
    for s1
    using assms(3-5) forward_parts_ok [OF assms(6,7), of s1]
    by (simp add: server_content_block_def)
  obtain s1 where tc: "tool_call_block E (JObj response) s = (None, s1)"
    and s1: "cl_sent s1 = cl_sent s"
  proof (cases "map_of response ''toolCall''")
    case None
    then have "tool_call_block E (JObj response) s = (None, s)"
      by (simp add: tool_call_block_def)
    then show ?thesis using that by simp
  next
    case (Some v)
    with assms(2) have h: "map_of response ''toolCall'' = Some (JObj tc)"
      "map_of tc ''functionCalls'' = Some (JArr fcs)"
      "list_all (call_ok (lib E)) fcs" "\<forall>n. up_fault E n = None"
      by simp_all
    have eq: "tool_call_block E (JObj response) s = function_calls E fcs s"
      using h(1,2) by (simp add: tool_call_block_def)
    have "fst (function_calls E fcs s) = None"
      using function_calls_valid [OF h(3,4), of s] by simp
    then have "tool_call_block E (JObj response) s = (None, snd (function_calls E fcs s))"
      using eq by (simp add: prod_eq_iff)
    then show ?thesis
      using that function_calls_cl_sent [OF h(3,4), of s] by simp
  qed
  have gf: "gemini_frame E msg s =
      (None, s1\<lparr>cl_sent := cl_sent s @ map audio_frame (List.map_filter inline_data parts)\<rparr>)"
    using assms(1) tc s1 sc [of s1] by (simp add: gemini_frame_def)
  show ?thesis
    using gf count_inline [OF assms(6)] by (simp add: af)
qed

text \<open>
  Three parts, the second without \<^verbatim>\<open>inlineData\<close>; and a frame with a tool call and
  one part.
\<close>

theorem inline_parts_forwarded_witness:
  "loads (lib demo_env) content_text =
     Inr (JObj [(''serverContent'', JObj [(''modelTurn'', JObj [(''parts'',
            JArr [JObj [(''inlineData'', JObj [(''data'', JStr ''UklG'')])],
                  JObj [(''text'', JStr ''ok'')],
                  JObj [(''inlineData'', JObj [(''data'', JStr ''RkY='')])]])])])])
   \<and> fst (gemini_frame demo_env content_text state0) = None
   \<and> cl_sent (snd (gemini_frame demo_env content_text state0)) =
          [JObj [(''type'', JStr ''audio''), (''data'', JStr ''UklG'')],
           JObj [(''type'', JStr ''audio''), (''data'', JStr ''RkY='')]]
   \<and> fst (gemini_frame demo_env mixed_text state0) = None
   \<and> cl_sent (snd (gemini_frame demo_env mixed_text state0)) =
          [JObj [(''type'', JStr ''audio''), (''data'', JStr ''UklG'')]]"
  using inline_parts_forwarded
    [where E = demo_env and msg = content_text and s = state0
       and response = "[(''serverContent'', JObj [(''modelTurn'', JObj [(''parts'',
            JArr [JObj [(''inlineData'', JObj [(''data'', JStr ''UklG'')])],
                  JObj [(''text'', JStr ''ok'')],
                  JObj [(''inlineData'', JObj [(''data'', JStr ''RkY='')])]])])])]"
       and sc = "[(''modelTurn'', JObj [(''parts'',
            JArr [JObj [(''inlineData'', JObj [(''data'', JStr ''UklG'')])],
                  JObj [(''text'', JStr ''ok'')],
                  JObj [(''inlineData'', JObj [(''data'', JStr ''RkY='')])]])])]"
       and mt = "[(''parts'',
            JArr [JObj [(''inlineData'', JObj [(''data'', JStr ''UklG'')])],
                  JObj [(''text'', JStr ''ok'')],
                  JObj [(''inlineData'', JObj [(''data'', JStr ''RkY='')])]])]"
       and parts = "[JObj [(''inlineData'', JObj [(''data'', JStr ''UklG'')])],
                  JObj [(''text'', JStr ''ok'')],
                  JObj [(''inlineData'', JObj [(''data'', JStr ''RkY='')])]]"]
    inline_parts_forwarded
    [where E = demo_env and msg = mixed_text and s = state0
       and response = "[(''toolCall'', JObj [(''functionCalls'', JArr [order_call ''call-3'' 1 350])]),
                   (''serverContent'', JObj [(''modelTurn'', JObj [(''parts'',
                      JArr [JObj [(''inlineData'', JObj [(''data'', JStr ''UklG'')])]])])])]"
       and tc = "[(''functionCalls'', JArr [order_call ''call-3'' 1 350])]"
       and fcs = "[order_call ''call-3'' 1 350]"
       and sc = "[(''modelTurn'', JObj [(''parts'',
                      JArr [JObj [(''inlineData'', JObj [(''data'', JStr ''UklG'')])]])])]"
       and mt = "[(''parts'', JArr [JObj [(''inlineData'', JObj [(''data'', JStr ''UklG'')])]])]"
       and parts = "[JObj [(''inlineData'', JObj [(''data'', JStr ''UklG'')])]]"]
  by (simp add: demo_simps List.map_filter_simps)

text \<open>
  C5 as first stated fails: a malformed tool call in the same frame ends the loop before
  the part is forwarded; of two parts with \<^verbatim>\<open>inlineData\<close>, the second without
  \<^verbatim>\<open>data\<close>, only the first is forwarded; and nothing is forwarded when the client
  send fails.
\<close>

theorem inline_part_not_forwarded_counterexample:
  "loads (lib demo_env) mixed_bad_text =
     Inr (JObj [(''toolCall'', JObj [(''functionCalls'', JArr [bad_call ''call-8''])]),
                (''serverContent'', JObj [(''modelTurn'', JObj [(''parts'',
                   JArr [JObj [(''inlineData'', JObj [(''data'', JStr ''UklG'')])]])])])])
   \<and> gemini_frame demo_env mixed_bad_text state0 = (Some (KeyError ''price''), state0)
   \<and> loads (lib demo_env) half_text =
     Inr (JObj [(''serverContent'', JObj [(''modelTurn'', JObj [(''parts'',
               JArr [JObj [(''inlineData'', JObj [(''data'', JStr ''UklG'')])],
                     JObj [(''inlineData'', JObj [])]])])])])
   \<and> gemini_frame demo_env half_text state0 =
       (Some (KeyError ''data''),
        state0\<lparr>cl_sent := [JObj [(''type'', JStr ''audio''), (''data'', JStr ''UklG'')]]\<rparr>)
   \<and> gemini_frame (demo_env\<lparr>cl_fault := (\<lambda>n. Some (ConnectionError ''closed''))\<rparr>)
        content_text state0 = (Some (ConnectionError ''closed''), state0)"
  by (simp add: demo_simps gemini_frame_def tool_call_block_def server_content_block_def
        place_order_def send_json_def audio_frame_def)

section \<open>Persistence\<close>

text \<open>
  C6. \<^verbatim>\<open>save_order\<close> never raises. When the commit raises, the exception is logged
  and nothing is stored. Whether and how the inbound loop ends, what it sends to either
  side, and which task completes first in a session do not depend on the database
  faults.
\<close>

theorem persistence_failure_not_fatal:
  "fst (save_order E it q p s) = None
   \<and> (db_fault E (length (save_calls s)) = Some e \<longrightarrow>
        snd (save_order E it q p s) =
          s\<lparr>save_calls := save_calls s @ [(it, q, p)], log := log s @ [LogDbError e]\<rparr>)
   \<and> fst (gemini_to_browser (E\<lparr>db_fault := f\<rparr>) ms ending s) =
       fst (gemini_to_browser E ms ending s)
   \<and> up_sent (snd (gemini_to_browser (E\<lparr>db_fault := f\<rparr>) ms ending s)) =
       up_sent (snd (gemini_to_browser E ms ending s))
   \<and> cl_sent (snd (gemini_to_browser (E\<lparr>db_fault := f\<rparr>) ms ending s)) =
       cl_sent (snd (gemini_to_browser E ms ending s))
   \<and> fst (wait_first_completed (E\<lparr>db_fault := f\<rparr>) evs s) =
       fst (wait_first_completed E evs s)"
proof -
  have a: "fst (save_order E it q p s) = None"
    by (rule save_order_returns)
  have b: "db_fault E (length (save_calls s)) = Some e \<longrightarrow>
        snd (save_order E it q p s) =
          s\<lparr>save_calls := save_calls s @ [(it, q, p)], log := log s @ [LogDbError e]\<rparr>"
    by (simp add: save_order_def save_order_try_def)
  note c = ni_gemini_to_browser [OF same_io_refl, of E ms ending s f]
  note d = ni_wait [OF same_io_refl, of E evs s f]
  show ?thesis
    using a b c d by (simp add: same_io_def)
qed

text \<open>A database that refuses every commit: the order is acknowledged all the same.\<close>

theorem persistence_failure_not_fatal_witness:
  "db_fault (demo_env\<lparr>db_fault := (\<lambda>n. Some (DatabaseError ''locked''))\<rparr>)
     (length (save_calls state0)) = Some (DatabaseError ''locked'')
   \<and> save_order (demo_env\<lparr>db_fault := (\<lambda>n. Some (DatabaseError ''locked''))\<rparr>)
        (JStr ''Biryani'') 2 350 state0 =
       (None, state0\<lparr>save_calls := [(JStr ''Biryani'', 2, 350)],
                      log := [LogDbError (DatabaseError ''locked'')]\<rparr>)
   \<and> gemini_to_browser (demo_env\<lparr>db_fault := (\<lambda>n. Some (DatabaseError ''locked''))\<rparr>)
        [order_text] None state0 =
       (None, state0\<lparr>save_calls := [(JStr ''Biryani'', 2, 350)],
                      up_sent := [tool_response (JStr ''call-1'')],
                      log := [LogDbError (DatabaseError ''locked'')]\<rparr>)"
  using persistence_failure_not_fatal
          [where E = "demo_env\<lparr>db_fault := (\<lambda>n. Some (DatabaseError ''locked''))\<rparr>"
             and s = state0 and e = "DatabaseError ''locked''" and it = "JStr ''Biryani''"
             and q = 2 and p = 350]
  by (simp add: demo_simps ws_send_def gemini_frame_def tool_call_block_def
        server_content_block_def place_order_def save_order_def save_order_try_def)




section \<open>The order listing\<close>

text \<open>
  C9. \<^verbatim>\<open>get_orders\<close> returns all the stored orders, each as often as it is stored,
  ordered by creation timestamp, newest first.
\<close>

theorem get_orders_newest_first:
  "mset (get_orders os) = mset os \<and>
   sorted_wrt (\<lambda>a b. created_at b \<le> created_at a) (get_orders os)"
proof -
  have "sorted (map created_at (sort_key created_at os))" by simp
  then have "sorted_wrt (\<lambda>a b. created_at a \<le> created_at b) (sort_key created_at os)"
    by (simp add: sorted_map)
  then have "sorted_wrt (\<lambda>a b. created_at b \<le> created_at a) (rev (sort_key created_at os))"
    by (simp add: sorted_wrt_rev)
  then show ?thesis by (simp add: get_orders_def)
qed

section \<open>The session\<close>






end
